theory Spec2Isabelle
  imports Main
begin

section \<open>The Google Cloud Pub/Sub subscriber of \<open>pkg/googlecloud/subscriber.go\<close>\<close>

text \<open>
  The subscriber resolves a subscription for a topic (creating or reconciling the remote
  resources), receives envelopes from it, forwards the decoded messages and relays each
  message's outcome upstream. The Pub/Sub client library, the gRPC status codes and the
  back-off library are outside the repository: every remote call is modelled by the answer
  it gives (a field of \<open>remote\<close>) and by an entry in the trace of calls made, so that the
  theorems hold for every behaviour of the remote service.
\<close>

subsection \<open>Errors\<close>

text \<open>The gRPC status codes that \<open>status.Code\<close> can report.\<close>

datatype code = OK | AlreadyExists | NotFound | PermissionDenied | Unavailable
  | DeadlineExceeded | Unknown

text \<open>
  The sentinel errors of the package, an error of the remote service with its status code,
  any other error with its text, \<open>errors.Wrap err msg\<close>, and the aggregate built by
  \<open>multierror.Append\<close>.
  \<open>ErrTopicDoesNotExist\<close> is declared next to the publisher, outside
  \<open>subscriber.go\<close>; it is a sentinel like the other three.
\<close>

datatype error =
    ErrSubscriberClosed
  | ErrSubscriptionDoesNotExist
  | ErrUnexpectedTopic
  | ErrTopicDoesNotExist
  | Remote code
  | Other string
  | Wrap error string
  | Multi "error list"

text \<open>\<open>errors.Cause\<close>: the error at the bottom of a chain of wraps.\<close>

fun Cause :: "error \<Rightarrow> error" where
  "Cause (Wrap e m) = Cause e"
| "Cause e = e"

text \<open>
  \<open>status.Code\<close>: \<open>OK\<close> for the nil error, the code of an error of the remote service,
  \<open>Unknown\<close> for any other error.
\<close>

fun status_Code :: "error option \<Rightarrow> code" where
  "status_Code None = OK"
| "status_Code (Some (Remote c)) = c"
| "status_Code (Some e) = Unknown"

subsection \<open>Data of the client library\<close>

record ReceiveSettings =
  MaxExtension :: int
  MaxOutstandingMessages :: int
  MaxOutstandingBytes :: int
  NumGoroutines :: int
  Synchronous :: bool

record PushConfig =
  Endpoint :: string
  Attributes :: "(string \<times> string) list"

text \<open>
  \<open>pubsub.SubscriptionConfig\<close>. \<open>Topic\<close> holds what \<open>config.Topic.String()\<close> gives:
  the fully qualified name \<open>projects/P/topics/T\<close>.
\<close>

record SubscriptionConfig =
  Topic :: string
  PushConfig :: PushConfig
  AckDeadline :: nat
  RetainAckedMessages :: bool
  EnableMessageOrdering :: bool
  Filter :: string

text \<open>
  A \<open>*pubsub.Client\<close>: \<open>c_id\<close> stands for the pointer (clients are numbered in the order
  the subscriber opens them), \<open>c_project\<close> is the project the client was opened for.
\<close>

record Client =
  c_id :: nat
  c_project :: string

text \<open>
  A \<open>*pubsub.Subscription\<close>, the handle of a subscription: the client it belongs to, the
  subscription's name and the receive settings, which are local to the handle.
\<close>

record Subscription =
  sub_client :: Client
  sub_name :: string
  sub_ReceiveSettings :: ReceiveSettings

text \<open>The zero value of \<open>pubsub.ReceiveSettings\<close>, which a fresh handle carries.\<close>

definition zero_ReceiveSettings :: ReceiveSettings where
  "zero_ReceiveSettings =
     \<lparr>MaxExtension = 0, MaxOutstandingMessages = 0, MaxOutstandingBytes = 0,
      NumGoroutines = 0, Synchronous = False\<rparr>"

text \<open>
  \<open>client.Subscription(name)\<close> and \<open>client.Topic(name)\<close> make local references, without
  a remote call: a fresh handle with zero receive settings, and the topic of that name in
  the client's own project.
\<close>

definition client_Subscription :: "Client \<Rightarrow> string \<Rightarrow> Subscription" where
  "client_Subscription c name =
     \<lparr>sub_client = c, sub_name = name, sub_ReceiveSettings = zero_ReceiveSettings\<rparr>"

definition client_Topic :: "Client \<Rightarrow> string \<Rightarrow> string" where
  "client_Topic c name = ''projects/'' @ c_project c @ ''/topics/'' @ name"

text \<open>An envelope of the service (\<open>pubsub.Message\<close>) and a decoded message.\<close>

record pubsub_Message =
  ID :: string
  Data :: string

record message =
  UUID :: string
  Payload :: string

subsection \<open>The subscriber\<close>

record SubscriberConfig =
  GenerateSubscriptionName :: "string \<Rightarrow> string"
  ProjectID :: string
  TopicProjectID :: string
  DoNotCreateSubscriptionIfMissing :: bool
  DoNotUpdateSubscriptionIfEndpointChanged :: bool
  RecreateSubscriptionIfFilterChanged :: bool
  DoNotCreateTopicIfMissing :: bool
  InitializeTimeout :: nat
  ReceiveSettings :: ReceiveSettings
  SubscriptionConfig :: SubscriptionConfig
  Unmarshaler :: "pubsub_Message \<Rightarrow> error + message"

text \<open>
  The state of a \<open>Subscriber\<close>. \<open>closing\<close> is true once the channel of that name has
  been closed; \<open>allSubscriptionsWaitGroup\<close> counts the streams that have been started.
\<close>

record Subscriber =
  closing :: bool
  closed :: bool
  allSubscriptionsWaitGroup :: nat
  activeSubscriptions :: "string \<rightharpoonup> Subscription"
  clients :: "Client list"
  config :: SubscriberConfig

definition topicProjectID :: "SubscriberConfig \<Rightarrow> string" where
  "topicProjectID sc = (if TopicProjectID sc \<noteq> [] then TopicProjectID sc else ProjectID sc)"

definition TopicSubscriptionName :: "string \<Rightarrow> string" where
  "TopicSubscriptionName topic = topic"

definition TopicSubscriptionNameWithSuffix :: "string \<Rightarrow> string \<Rightarrow> string" where
  "TopicSubscriptionNameWithSuffix suffix = (\<lambda>topic. topic @ suffix)"

text \<open>
  \<open>setDefaults\<close> and \<open>NewSubscriber\<close>. A nil naming function or unmarshaler is
  replaced by the default one; the configuration of the model holds the functions
  themselves, so only the time-out (in milliseconds) is left to default.
\<close>

definition setDefaults :: "SubscriberConfig \<Rightarrow> SubscriberConfig" where
  "setDefaults c = (if InitializeTimeout c = 0 then c\<lparr>InitializeTimeout := 10 * 1000\<rparr> else c)"

definition NewSubscriber :: "SubscriberConfig \<Rightarrow> Subscriber" where
  "NewSubscriber c =
     \<lparr>closing = False, closed = False, allSubscriptionsWaitGroup = 0,
      activeSubscriptions = Map.empty, clients = [], config = setDefaults c\<rparr>"

definition setClosed :: "Subscriber \<Rightarrow> bool \<Rightarrow> Subscriber" where
  "setClosed s v = s\<lparr>closed := v\<rparr>"

definition getClosed :: "Subscriber \<Rightarrow> bool" where
  "getClosed s = closed s"

subsection \<open>The remote service\<close>

text \<open>
  The answers of the remote service during one resolution. Each call is made at most once
  in a resolution, so one answer per call is enough. \<open>None\<close> and \<open>Inr\<close> are success.
\<close>

record remote =
  r_NewClient :: "error option"
  r_SubExists :: "error + bool"
  r_SubConfig :: "error + SubscriptionConfig"
  r_SubDelete :: "error option"
  r_SubUpdate :: "error + SubscriptionConfig"
  r_TopicExists :: "error + bool"
  r_CreateTopic :: "error option"
  r_CreateSubscription :: "error option"

text \<open>
  The calls that leave the process, in the order they are made. \<open>TopicExists\<close> carries
  the fully qualified topic it asks about, \<open>CreateSubscription\<close> the configuration sent
  (whose \<open>Topic\<close> is the topic the subscription is bound to), \<open>SubUpdate\<close> the push
  configuration, the only field of the update.
\<close>

datatype rpc =
    NewClient string
  | SubExists Client string
  | SubConfig Client string
  | SubDelete Client string
  | SubUpdate Client string PushConfig
  | TopicExists string
  | CreateTopic Client string
  | CreateSubscription Client string SubscriptionConfig
  | ClientClose Client

subsection \<open>Resolution\<close>

text \<open>
  The client that \<open>pubsub.NewClient\<close> returns when it succeeds: a new object, for the
  subscriber's project \<open>ProjectID\<close>.
\<close>

definition pubsub_NewClient :: "Subscriber \<Rightarrow> Client" where
  "pubsub_NewClient s = \<lparr>c_id = length (clients s), c_project = ProjectID (config s)\<rparr>"

text \<open>
  \<open>newClient\<close>: open a client for the subscriber's project and record it in \<open>clients\<close>.
\<close>

definition newClient :: "Subscriber \<Rightarrow> remote \<Rightarrow> (error + Client) \<times> Subscriber \<times> rpc list" where
  "newClient s r =
     (case r_NewClient r of
        Some err \<Rightarrow> (Inl err, s, [NewClient (ProjectID (config s))])
      | None \<Rightarrow>
          (let client = pubsub_NewClient s
           in (Inr client, s\<lparr>clients := clients s @ [client]\<rparr>,
               [NewClient (ProjectID (config s))])))"

text \<open>\<open>strings.ReplaceAll(f, " ", "")\<close>: every space is removed.\<close>

definition ReplaceAll_space :: "string \<Rightarrow> string" where
  "ReplaceAll_space f = filter (\<lambda>c. c \<noteq> CHR '' '') f"

definition isFilterChanged :: "Subscriber \<Rightarrow> SubscriptionConfig \<Rightarrow> bool" where
  "isFilterChanged s cfg =
     (let oldFilter = ReplaceAll_space (Filter cfg);
          newFilter = ReplaceAll_space (Filter (SubscriptionConfig (config s)))
      in oldFilter \<noteq> newFilter)"

definition isPushEndpointChanged :: "Subscriber \<Rightarrow> SubscriptionConfig \<Rightarrow> bool" where
  "isPushEndpointChanged s cfg =
     (Endpoint (PushConfig cfg) \<noteq> Endpoint (PushConfig (SubscriptionConfig (config s))))"

text \<open>
  \<open>createSubscription\<close>: make sure the topic exists, then create the subscription bound
  to it. An \<open>AlreadyExists\<close> answer of either create call is not an error: the reference
  is taken again from the client.
\<close>

definition createSubscription ::
  "Subscriber \<Rightarrow> remote \<Rightarrow> Client \<Rightarrow> string \<Rightarrow> string \<Rightarrow> (error + Subscription) \<times> rpc list" where
  "createSubscription s r client topicName subscriptionName =
     (let t = client_Topic client topicName in
      case r_TopicExists r of
        Inl err \<Rightarrow>
          (Inl (Wrap err (''could not check if topic '' @ topicName @ '' exists'')),
           [TopicExists t])
      | Inr exists \<Rightarrow>
          if \<not> exists \<and> DoNotCreateTopicIfMissing (config s) then
            (Inl (Wrap ErrTopicDoesNotExist topicName), [TopicExists t])
          else
            (case (if \<not> exists then
                     (case r_CreateTopic r of
                        None \<Rightarrow> (Inr (client_Topic client topicName), [CreateTopic client topicName])
                      | Some err \<Rightarrow>
                          if status_Code (Some err) = AlreadyExists then
                            (Inr (client_Topic client topicName), [CreateTopic client topicName])
                          else
                            (Inl (Wrap err ''could not create topic for subscription''),
                             [CreateTopic client topicName]))
                   else (Inr t, [])) of
               (Inl err, tr) \<Rightarrow> (Inl err, TopicExists t # tr)
             | (Inr t', tr) \<Rightarrow>
                 (let cfg = (SubscriptionConfig (config s))\<lparr>Topic := t'\<rparr>;
                      call = CreateSubscription client subscriptionName cfg
                  in case r_CreateSubscription r of
                       None \<Rightarrow>
                         (Inr (client_Subscription client subscriptionName),
                          TopicExists t # tr @ [call])
                     | Some err \<Rightarrow>
                         if status_Code (Some err) = AlreadyExists then
                           (Inr (client_Subscription client subscriptionName),
                            TopicExists t # tr @ [call])
                         else
                           (Inl (Wrap err ''cannot create subscription''),
                            TopicExists t # tr @ [call]))))"

text \<open>
  \<open>existingSubscription\<close>: the subscription exists. Its bound topic must be the expected
  one, by fully qualified name; then the filter and the push endpoint are reconciled.
\<close>

definition existingSubscription ::
  "Subscriber \<Rightarrow> remote \<Rightarrow> Client \<Rightarrow> Subscription \<Rightarrow> string \<Rightarrow> string
     \<Rightarrow> (error + Subscription) \<times> rpc list" where
  "existingSubscription s r client sub topicName subscriptionName =
     (let fetch = SubConfig client subscriptionName in
      case r_SubConfig r of
        Inl err \<Rightarrow> (Inl (Wrap err ''could not fetch config for existing subscription''), [fetch])
      | Inr cfg \<Rightarrow>
          (let fullyQualifiedTopicName =
                 ''projects/'' @ topicProjectID (config s) @ ''/topics/'' @ topicName
           in if Topic cfg \<noteq> fullyQualifiedTopicName then
                (Inl (Wrap ErrUnexpectedTopic
                        (''topic of existing sub: '' @ Topic cfg @ ''; expecting: ''
                           @ fullyQualifiedTopicName)),
                 [fetch])
              else
                (let sub' = sub\<lparr>sub_ReceiveSettings := ReceiveSettings (config s)\<rparr> in
                 if isFilterChanged s cfg \<and> RecreateSubscriptionIfFilterChanged (config s) then
                   (case r_SubDelete r of
                      Some err \<Rightarrow>
                        (Inl (Wrap err ''could not delete subscription''),
                         [fetch, SubDelete client subscriptionName])
                    | None \<Rightarrow>
                        (case createSubscription s r client topicName subscriptionName of
                           (res, tr) \<Rightarrow> (res, [fetch, SubDelete client subscriptionName] @ tr)))
                 else if DoNotUpdateSubscriptionIfEndpointChanged (config s) then
                   (Inr sub', [fetch])
                 else if isPushEndpointChanged s cfg then
                   (let update = SubUpdate client subscriptionName
                                   (PushConfig (SubscriptionConfig (config s)))
                    in case r_SubUpdate r of
                         Inl err \<Rightarrow> (Inl (Wrap err ''could not update subscription''), [fetch, update])
                       | Inr updatedConfig \<Rightarrow> (Inr sub', [fetch, update]))
                 else (Inr sub', [fetch]))))"

text \<open>
  \<open>subscription\<close> has two critical sections. The first, under the read lock, looks the
  name up in the cache. The second, under the exclusive lock, opens a client and resolves
  the subscription; its deferred function stores the handle in the cache when the error
  is nil.
\<close>

definition subscription_cached :: "Subscriber \<Rightarrow> string \<Rightarrow> Subscription option" where
  "subscription_cached s subscriptionName = activeSubscriptions s subscriptionName"

definition subscription_body ::
  "Subscriber \<Rightarrow> remote \<Rightarrow> Client \<Rightarrow> string \<Rightarrow> string \<Rightarrow> (error + Subscription) \<times> rpc list" where
  "subscription_body s r client subscriptionName topicName =
     (let sub = client_Subscription client subscriptionName;
          ask = SubExists client subscriptionName
      in case r_SubExists r of
           Inl err \<Rightarrow>
             (Inl (Wrap err (''could not check if subscription '' @ subscriptionName @ '' exists'')),
              [ask])
         | Inr exists \<Rightarrow>
             if exists then
               (case existingSubscription s r client sub topicName subscriptionName of
                  (res, tr) \<Rightarrow> (res, ask # tr))
             else if DoNotCreateSubscriptionIfMissing (config s) then
               (Inl (Wrap ErrSubscriptionDoesNotExist subscriptionName), [ask])
             else
               (case createSubscription s r client topicName subscriptionName of
                  (Inl err, tr) \<Rightarrow> (Inl err, ask # tr)
                | (Inr sub', tr) \<Rightarrow>
                    (Inr (sub'\<lparr>sub_ReceiveSettings := ReceiveSettings (config s)\<rparr>), ask # tr)))"

definition subscription_locked ::
  "Subscriber \<Rightarrow> remote \<Rightarrow> string \<Rightarrow> string \<Rightarrow> (error + Subscription) \<times> Subscriber \<times> rpc list" where
  "subscription_locked s r subscriptionName topicName =
     (case newClient s r of
        (Inl err, s1, tr) \<Rightarrow> (Inl err, s1, tr)
      | (Inr client, s1, tr) \<Rightarrow>
          (case subscription_body s1 r client subscriptionName topicName of
             (Inl err, tr') \<Rightarrow> (Inl err, s1, tr @ tr')
           | (Inr sub, tr') \<Rightarrow>
               (Inr sub,
                s1\<lparr>activeSubscriptions := (activeSubscriptions s1)(subscriptionName \<mapsto> sub)\<rparr>,
                tr @ tr')))"

definition subscription ::
  "Subscriber \<Rightarrow> remote \<Rightarrow> string \<Rightarrow> string \<Rightarrow> (error + Subscription) \<times> Subscriber \<times> rpc list" where
  "subscription s r subscriptionName topicName =
     (case subscription_cached s subscriptionName of
        Some sub \<Rightarrow> (Inr sub, s, [])
      | None \<Rightarrow> subscription_locked s r subscriptionName topicName)"

subsection \<open>The entry points\<close>

text \<open>
  \<open>Subscribe\<close> refuses a closed subscriber, resolves the subscription and starts the
  stream on the handle: the wait group is incremented and the handle is what the
  supervised delivery loop receives from.
\<close>

definition Subscribe ::
  "Subscriber \<Rightarrow> remote \<Rightarrow> string \<Rightarrow> (error + Subscription) \<times> Subscriber \<times> rpc list" where
  "Subscribe s r topic =
     (if getClosed s then (Inl ErrSubscriberClosed, s, [])
      else
        (let subscriptionName = GenerateSubscriptionName (config s) topic in
         case subscription s r subscriptionName topic of
           (Inl err, s', tr) \<Rightarrow> (Inl err, s', tr)
         | (Inr sub, s', tr) \<Rightarrow>
             (Inr sub, s'\<lparr>allSubscriptionsWaitGroup := allSubscriptionsWaitGroup s' + 1\<rparr>, tr)))"

definition SubscribeInitialize ::
  "Subscriber \<Rightarrow> remote \<Rightarrow> string \<Rightarrow> error option \<times> Subscriber \<times> rpc list" where
  "SubscribeInitialize s r topic =
     (let subscriptionName = GenerateSubscriptionName (config s) topic in
      case subscription s r subscriptionName topic of
        (Inl err, s', tr) \<Rightarrow> (Some err, s', tr)
      | (Inr sub, s', tr) \<Rightarrow> (None, s', tr))"

text \<open>
  \<open>Close\<close>: a closed subscriber is left alone. Otherwise the flag is set, the
  \<open>closing\<close> channel is closed, the streams are waited for (which brings the wait group
  to zero) and every client of \<open>clients\<close> is closed; \<open>closeErr\<close> is the answer of each
  client's \<open>Close\<close>, and the failures are collected.
\<close>

definition Close ::
  "Subscriber \<Rightarrow> (Client \<Rightarrow> error option) \<Rightarrow> error option \<times> Subscriber \<times> rpc list" where
  "Close s closeErr =
     (if getClosed s then (None, s, [])
      else
        (let s1 = (setClosed s True)\<lparr>closing := True, allSubscriptionsWaitGroup := 0\<rparr>;
             errs = concat (map (\<lambda>client. case closeErr client of
                                               None \<Rightarrow> []
                                             | Some closeErr \<Rightarrow> [Wrap closeErr ''unable to close client''])
                              (clients s1))
         in (if errs = [] then None else Some (Multi errs), s1, map ClientClose (clients s1))))"

subsection \<open>The delivery loop\<close>

text \<open>
  The callback of \<open>receive\<close> runs once for each envelope. It has two \<open>select\<close>
  statements; each blocks until one of its channels is ready and then takes one case. The
  case taken is an input of the model: \<open>offer\<close> for the first \<open>select\<close> (the offer of the
  message to the output channel), \<open>outcome\<close> for the second (the wait for the
  application's decision).
\<close>

datatype offer = Offer_closing | Offer_ctx_done | Offer_sent

datatype outcome = Closing | Ctx_done | Msg_acked | Msg_nacked

text \<open>
  What the callback does that others can see: \<open>Ack\<close> and \<open>Nack\<close> of the envelope, sent
  upstream, and the message put on the output channel.
\<close>

datatype effect = Ack pubsub_Message | Nack pubsub_Message | Output message

definition receive_callback ::
  "Subscriber \<Rightarrow> pubsub_Message \<Rightarrow> offer \<Rightarrow> outcome \<Rightarrow> effect list" where
  "receive_callback s pubsubMsg first second =
     (case Unmarshaler (config s) pubsubMsg of
        Inl err \<Rightarrow> [Nack pubsubMsg]
      | Inr msg \<Rightarrow>
          (case first of
             Offer_closing \<Rightarrow> [Nack pubsubMsg]
           | Offer_ctx_done \<Rightarrow> [Nack pubsubMsg]
           | Offer_sent \<Rightarrow>
               Output msg #
               (case second of
                  Closing \<Rightarrow> [Nack pubsubMsg]
                | Ctx_done \<Rightarrow> [Nack pubsubMsg]
                | Msg_acked \<Rightarrow> [Ack pubsubMsg]
                | Msg_nacked \<Rightarrow> [Nack pubsubMsg])))"

text \<open>
  \<open>receive\<close> hands the callback to \<open>sub.Receive\<close> and returns what that call returns.
  The library runs the callback on every envelope it receives until the streaming receive
  ends; the callback returns nothing, so it cannot end the receive. \<open>ds\<close> are the
  envelopes of one call with the cases their \<open>select\<close>s take, \<open>terminal\<close> is the
  error (or nil) the streaming receive ends with.
\<close>

record delivery =
  d_envelope :: pubsub_Message
  d_offer :: offer
  d_outcome :: outcome

fun deliver_all :: "Subscriber \<Rightarrow> delivery list \<Rightarrow> effect list" where
  "deliver_all s [] = []"
| "deliver_all s (d # ds) =
     receive_callback s (d_envelope d) (d_offer d) (d_outcome d) @ deliver_all s ds"

definition receive ::
  "Subscriber \<Rightarrow> Subscription \<Rightarrow> delivery list \<Rightarrow> error option \<Rightarrow> effect list \<times> error option" where
  "receive s sub ds terminal = (deliver_all s ds, terminal)"

text \<open>The upstream outcomes relayed for an envelope, in order.\<close>

fun relayed :: "pubsub_Message \<Rightarrow> effect list \<Rightarrow> effect list" where
  "relayed m [] = []"
| "relayed m (Ack m' # es) = (if m' = m then Ack m' # relayed m es else relayed m es)"
| "relayed m (Nack m' # es) = (if m' = m then Nack m' # relayed m es else relayed m es)"
| "relayed m (Output x # es) = relayed m es"

subsection \<open>The retry supervisor\<close>

text \<open>
  The operation that \<open>Subscribe\<close> gives to \<open>backoff.Retry\<close>: \<open>err\<close> is what \<open>receive\<close>
  returned, \<open>isClosed\<close> what \<open>getClosed\<close> returns after it.
\<close>

datatype retry = Retry_nil | Retry_permanent error | Retry_err error

definition operation :: "error option \<Rightarrow> bool \<Rightarrow> retry" where
  "operation err isClosed =
     (case err of
        None \<Rightarrow> Retry_nil
      | Some e \<Rightarrow> if isClosed then Retry_permanent e else Retry_err e)"

text \<open>
  The back-off library. \<open>NextBackOff\<close> answers \<open>Stop\<close> when a maximum elapsed time is
  set (not zero) and has passed; the lengths of the waits are the library's and are not
  modelled. \<open>Retry\<close> runs the operation until it returns nil or a permanent error, or
  until \<open>NextBackOff\<close> answers \<open>Stop\<close>. It may run forever: \<open>fuel\<close> bounds the number
  of attempts and \<open>None\<close> says that the fuel ran out while it was still retrying.
  The result is the error reported and the number of attempts made.
\<close>

record ExponentialBackOff =
  MaxElapsedTime :: nat

definition NewExponentialBackOff :: ExponentialBackOff where
  "NewExponentialBackOff = \<lparr>MaxElapsedTime = 15 * 60 * 1000\<rparr>"

definition NextBackOff_Stop :: "ExponentialBackOff \<Rightarrow> nat \<Rightarrow> bool" where
  "NextBackOff_Stop b elapsed = (MaxElapsedTime b \<noteq> 0 \<and> elapsed > MaxElapsedTime b)"

fun Retry ::
  "nat \<Rightarrow> (nat \<Rightarrow> retry) \<Rightarrow> ExponentialBackOff \<Rightarrow> (nat \<Rightarrow> nat) \<Rightarrow> nat
     \<Rightarrow> (error option \<times> nat) option" where
  "Retry 0 op b elapsed k = None"
| "Retry (Suc fuel) op b elapsed k =
     (case op k of
        Retry_nil \<Rightarrow> Some (None, Suc k)
      | Retry_permanent e \<Rightarrow> Some (Some e, Suc k)
      | Retry_err e \<Rightarrow>
          if NextBackOff_Stop b (elapsed k) then Some (Some e, Suc k)
          else Retry fuel op b elapsed (Suc k))"

text \<open>
  The supervising goroutine of \<open>Subscribe\<close>. \<open>recv sub k\<close> is what attempt \<open>k\<close> of
  \<open>receive\<close> on the handle \<open>sub\<close> returns, \<open>closedAt k\<close> the value of the closed flag
  when the operation reads it after that attempt, \<open>elapsed k\<close> the time since the start.
\<close>

definition supervise ::
  "nat \<Rightarrow> Subscription \<Rightarrow> (Subscription \<Rightarrow> nat \<Rightarrow> error option) \<Rightarrow> (nat \<Rightarrow> bool) \<Rightarrow> (nat \<Rightarrow> nat)
     \<Rightarrow> (error option \<times> nat) option" where
  "supervise fuel sub recv closedAt elapsed =
     (let exponentialBackoff = NewExponentialBackOff\<lparr>MaxElapsedTime := 0\<rparr>
      in Retry fuel (\<lambda>k. operation (recv sub k) (closedAt k)) exponentialBackoff elapsed 0)"

subsection \<open>Callers of the resolver, interleaved\<close>

text \<open>
  Several goroutines may call \<open>subscription\<close> for one name at once. The read lock and the
  exclusive lock make each of the two sections atomic, so a concurrent run is a sequence
  of events: \<open>Check i\<close>, caller \<open>i\<close> runs the section under the read lock, and
  \<open>Resolve i\<close>, caller \<open>i\<close>, having missed the cache, runs the section under the
  exclusive lock. \<open>rs i\<close> are the answers of the remote service to caller \<open>i\<close>.
\<close>

datatype call = Idle | Missed | Returned "error + Subscription"

datatype event = Check nat | Resolve nat

record world =
  w_sub :: Subscriber
  w_calls :: "call list"
  w_log :: "rpc list"

fun step :: "(nat \<Rightarrow> remote) \<Rightarrow> string \<Rightarrow> string \<Rightarrow> world \<Rightarrow> event \<Rightarrow> world" where
  "step rs subscriptionName topicName w (Check i) =
     (if i < length (w_calls w) \<and> w_calls w ! i = Idle then
        w\<lparr>w_calls := (w_calls w)
             [i := (case subscription_cached (w_sub w) subscriptionName of
                      Some sub \<Rightarrow> Returned (Inr sub)
                    | None \<Rightarrow> Missed)]\<rparr>
      else w)"
| "step rs subscriptionName topicName w (Resolve i) =
     (if i < length (w_calls w) \<and> w_calls w ! i = Missed then
        (case subscription_locked (w_sub w) (rs i) subscriptionName topicName of
           (res, s', tr) \<Rightarrow>
             w\<lparr>w_sub := s', w_calls := (w_calls w)[i := Returned res], w_log := w_log w @ tr\<rparr>)
      else w)"

fun run :: "(nat \<Rightarrow> remote) \<Rightarrow> string \<Rightarrow> string \<Rightarrow> world \<Rightarrow> event list \<Rightarrow> world" where
  "run rs subscriptionName topicName w [] = w"
| "run rs subscriptionName topicName w (e # es) =
     run rs subscriptionName topicName (step rs subscriptionName topicName w e) es"

text \<open>The number of clients opened, that is of remote sequences started, in a trace.\<close>

fun sequences :: "rpc list \<Rightarrow> nat" where
  "sequences [] = 0"
| "sequences (NewClient p # tr) = Suc (sequences tr)"
| "sequences (c # tr) = sequences tr"

text \<open>The clients that a trace closes, in order.\<close>

fun released :: "rpc list \<Rightarrow> Client list" where
  "released [] = []"
| "released (ClientClose c # tr) = c # released tr"
| "released (x # tr) = released tr"

text \<open>
  The calls of a trace that change the remote service: deleting or updating a
  subscription, creating a topic or a subscription.
\<close>

fun mutations :: "rpc list \<Rightarrow> rpc list" where
  "mutations [] = []"
| "mutations (SubDelete c n # tr) = SubDelete c n # mutations tr"
| "mutations (SubUpdate c n p # tr) = SubUpdate c n p # mutations tr"
| "mutations (CreateTopic c t # tr) = CreateTopic c t # mutations tr"
| "mutations (CreateSubscription c n cfg # tr) = CreateSubscription c n cfg # mutations tr"
| "mutations (x # tr) = mutations tr"

subsection \<open>A subscriber and a remote service to run the model on\<close>

definition ex_Unmarshaler :: "pubsub_Message \<Rightarrow> error + message" where
  "ex_Unmarshaler m =
     (if Data m = [] then Inl (Other ''empty payload'')
      else Inr \<lparr>UUID = ID m, Payload = Data m\<rparr>)"

definition ex_SubscriptionConfig :: SubscriptionConfig where
  "ex_SubscriptionConfig =
     \<lparr>Topic = [], PushConfig = \<lparr>Endpoint = [], Attributes = []\<rparr>, AckDeadline = 30,
      RetainAckedMessages = False, EnableMessageOrdering = False, Filter = ''a = b''\<rparr>"

definition ex_config :: SubscriberConfig where
  "ex_config =
     \<lparr>GenerateSubscriptionName = TopicSubscriptionName, ProjectID = ''p'',
      TopicProjectID = [], DoNotCreateSubscriptionIfMissing = False,
      DoNotUpdateSubscriptionIfEndpointChanged = False,
      RecreateSubscriptionIfFilterChanged = False, DoNotCreateTopicIfMissing = False,
      InitializeTimeout = 0,
      ReceiveSettings = zero_ReceiveSettings\<lparr>NumGoroutines := 4\<rparr>,
      SubscriptionConfig = ex_SubscriptionConfig, Unmarshaler = ex_Unmarshaler\<rparr>"

text \<open>A remote service on which neither the subscription nor the topic exists yet.\<close>

definition ex_fresh :: remote where
  "ex_fresh =
     \<lparr>r_NewClient = None, r_SubExists = Inr False, r_SubConfig = Inl (Remote NotFound),
      r_SubDelete = Some (Remote NotFound), r_SubUpdate = Inl (Remote NotFound),
      r_TopicExists = Inr False, r_CreateTopic = None, r_CreateSubscription = None\<rparr>"

text \<open>
  A remote service on which the subscription exists, bound to \<open>topic\<close> with the filter
  \<open>f\<close>, and the topic asked about exists.
\<close>

definition ex_existing :: "string \<Rightarrow> string \<Rightarrow> remote" where
  "ex_existing topic f =
     \<lparr>r_NewClient = None, r_SubExists = Inr True,
      r_SubConfig = Inr (ex_SubscriptionConfig\<lparr>Topic := topic, Filter := f\<rparr>),
      r_SubDelete = None,
      r_SubUpdate = Inr (ex_SubscriptionConfig\<lparr>Topic := topic, Filter := f\<rparr>),
      r_TopicExists = Inr True, r_CreateTopic = Some (Remote AlreadyExists),
      r_CreateSubscription = None\<rparr>"

text \<open>
  Two callers of the resolver: the first finds nothing on the remote service, the second
  finds the subscription that the first has created.
\<close>

definition ex_answers :: "nat \<Rightarrow> remote" where
  "ex_answers i = (if i = 0 then ex_fresh else ex_existing ''projects/p/topics/t'' ''a = b'')"

text \<open>A naming function that gives every topic the same subscription name.\<close>

definition ex_sameName :: "string \<Rightarrow> string" where
  "ex_sameName topic = ''sub''"

text \<open>Closing a client succeeds.\<close>

definition ex_closeErr :: "Client \<Rightarrow> error option" where
  "ex_closeErr client = None"

definition ex_envelope :: "string \<Rightarrow> string \<Rightarrow> pubsub_Message" where
  "ex_envelope i d = \<lparr>ID = i, Data = d\<rparr>"

definition ex_delivery :: "string \<Rightarrow> string \<Rightarrow> offer \<Rightarrow> outcome \<Rightarrow> delivery" where
  "ex_delivery i d first second =
     \<lparr>d_envelope = ex_envelope i d, d_offer = first, d_outcome = second\<rparr>"

section \<open>Properties\<close>

subsection \<open>The delivery loop\<close>

lemma deliver_all_append: "deliver_all s (ds @ ds') = deliver_all s ds @ deliver_all s ds'"
  by (induction ds) simp_all

lemma relayed_append: "relayed m (es @ es') = relayed m es @ relayed m es'"
  by (induction es rule: relayed.induct) simp_all

lemma relayed_other: "m' \<noteq> m \<Longrightarrow> relayed m (receive_callback s m' first second) = []"
  by (simp add: receive_callback_def split: sum.split offer.split outcome.split)

lemma relayed_others: "m \<notin> d_envelope ` set ds \<Longrightarrow> relayed m (deliver_all s ds) = []"
  by (induction ds) (auto simp: relayed_append relayed_other)

lemma relayed_delivered:
  "Unmarshaler (config s) m = Inr msg \<Longrightarrow>
     receive_callback s m Offer_sent second =
       [Output msg, if second = Msg_acked then Ack m else Nack m]"
  by (simp add: receive_callback_def split: outcome.split)

text \<open>
  C1. An envelope that the codec decodes and whose message the first \<open>select\<close> puts on
  the output channel gets exactly one outcome relayed upstream in the whole run of the
  delivery loop: an ack when the second \<open>select\<close> takes the application's
  acknowledgment, a nack when it takes the shutdown signal, the cancellation of the
  context or the application's rejection. The message is on the output channel, and the
  envelopes that the loop receives are distinct objects.
\<close>

theorem C1_delivered_envelope_one_outcome:
  assumes "Unmarshaler (config s) (d_envelope d) = Inr msg"
    and "d_offer d = Offer_sent"
    and "d_envelope d \<notin> d_envelope ` set (ds @ ds')"
  shows "Output msg \<in> set (fst (receive s sub (ds @ d # ds') terminal))
       \<and> relayed (d_envelope d) (fst (receive s sub (ds @ d # ds') terminal)) =
           [if d_outcome d = Msg_acked then Ack (d_envelope d) else Nack (d_envelope d)]"
proof -
  have before: "relayed (d_envelope d) (deliver_all s ds) = []"
    and after: "relayed (d_envelope d) (deliver_all s ds') = []"
    using assms(3) by (auto intro: relayed_others)
  have here: "receive_callback s (d_envelope d) (d_offer d) (d_outcome d) =
      [Output msg, if d_outcome d = Msg_acked then Ack (d_envelope d) else Nack (d_envelope d)]"
    using relayed_delivered [OF assms(1)] assms(2) by simp
  show ?thesis
    using here before after
    by (simp add: receive_def deliver_all_append relayed_append)
qed

theorem C1_delivered_envelope_one_outcome_witness:
  "relayed (ex_envelope ''2'' ''hello'')
     (fst (receive (NewSubscriber ex_config)
             (client_Subscription \<lparr>c_id = 0, c_project = ''p''\<rparr> ''t'')
             ([ex_delivery ''1'' [] Offer_sent Msg_acked] @
               ex_delivery ''2'' ''hello'' Offer_sent Msg_acked #
              [ex_delivery ''3'' ''bye'' Offer_sent Msg_nacked]) None))
     = [Ack (ex_envelope ''2'' ''hello'')]
   \<and> relayed (ex_envelope ''2'' ''hello'')
     (fst (receive (NewSubscriber ex_config)
             (client_Subscription \<lparr>c_id = 0, c_project = ''p''\<rparr> ''t'')
             ([ex_delivery ''1'' [] Offer_sent Msg_acked] @
               ex_delivery ''2'' ''hello'' Offer_sent Closing #
              [ex_delivery ''3'' ''bye'' Offer_sent Msg_nacked]) None))
     = [Nack (ex_envelope ''2'' ''hello'')]
   \<and> relayed (ex_envelope ''2'' ''hello'')
     (fst (receive (NewSubscriber ex_config)
             (client_Subscription \<lparr>c_id = 0, c_project = ''p''\<rparr> ''t'')
             ([ex_delivery ''1'' [] Offer_sent Msg_acked] @
               ex_delivery ''2'' ''hello'' Offer_sent Ctx_done #
              [ex_delivery ''3'' ''bye'' Offer_sent Msg_nacked]) None))
     = [Nack (ex_envelope ''2'' ''hello'')]
   \<and> relayed (ex_envelope ''2'' ''hello'')
     (fst (receive (NewSubscriber ex_config)
             (client_Subscription \<lparr>c_id = 0, c_project = ''p''\<rparr> ''t'')
             ([ex_delivery ''1'' [] Offer_sent Msg_acked] @
               ex_delivery ''2'' ''hello'' Offer_sent Msg_nacked #
              [ex_delivery ''3'' ''bye'' Offer_sent Msg_nacked]) None))
     = [Nack (ex_envelope ''2'' ''hello'')]"
proof -
  let ?s = "NewSubscriber ex_config"
  let ?sub = "client_Subscription \<lparr>c_id = 0, c_project = ''p''\<rparr> ''t''"
  let ?ds = "[ex_delivery ''1'' [] Offer_sent Msg_acked]"
  let ?ds' = "[ex_delivery ''3'' ''bye'' Offer_sent Msg_nacked]"
  have 1: "Unmarshaler (config ?s) (d_envelope (ex_delivery ''2'' ''hello'' Offer_sent oc))
             = Inr \<lparr>UUID = ''2'', Payload = ''hello''\<rparr>" for oc
    by (simp add: NewSubscriber_def setDefaults_def ex_config_def ex_delivery_def
        ex_envelope_def ex_Unmarshaler_def)
  have 2: "d_offer (ex_delivery ''2'' ''hello'' Offer_sent oc) = Offer_sent" for oc
    by (simp add: ex_delivery_def)
  have 3: "d_envelope (ex_delivery ''2'' ''hello'' Offer_sent oc)
             \<notin> d_envelope ` set (?ds @ ?ds')" for oc
    by (simp add: ex_delivery_def ex_envelope_def)
  have a: "relayed (ex_envelope ''2'' ''hello'')
     (fst (receive ?s ?sub (?ds @ ex_delivery ''2'' ''hello'' Offer_sent Msg_acked # ?ds') None))
     = [Ack (ex_envelope ''2'' ''hello'')]"
    using C1_delivered_envelope_one_outcome [OF 1 [of Msg_acked] 2 [of Msg_acked] 3 [of Msg_acked],
        where sub = ?sub and terminal = None, THEN conjunct2]
    by (simp add: ex_delivery_def)
  have b: "relayed (ex_envelope ''2'' ''hello'')
     (fst (receive ?s ?sub (?ds @ ex_delivery ''2'' ''hello'' Offer_sent Closing # ?ds') None))
     = [Nack (ex_envelope ''2'' ''hello'')]"
    using C1_delivered_envelope_one_outcome [OF 1 [of Closing] 2 [of Closing] 3 [of Closing],
        where sub = ?sub and terminal = None, THEN conjunct2]
    by (simp add: ex_delivery_def)
  have c: "relayed (ex_envelope ''2'' ''hello'')
     (fst (receive ?s ?sub (?ds @ ex_delivery ''2'' ''hello'' Offer_sent Ctx_done # ?ds') None))
     = [Nack (ex_envelope ''2'' ''hello'')]"
    using C1_delivered_envelope_one_outcome [OF 1 [of Ctx_done] 2 [of Ctx_done] 3 [of Ctx_done],
        where sub = ?sub and terminal = None, THEN conjunct2]
    by (simp add: ex_delivery_def)
  have d: "relayed (ex_envelope ''2'' ''hello'')
     (fst (receive ?s ?sub (?ds @ ex_delivery ''2'' ''hello'' Offer_sent Msg_nacked # ?ds') None))
     = [Nack (ex_envelope ''2'' ''hello'')]"
    using C1_delivered_envelope_one_outcome [OF 1 [of Msg_nacked] 2 [of Msg_nacked] 3 [of Msg_nacked],
        where sub = ?sub and terminal = None, THEN conjunct2]
    by (simp add: ex_delivery_def)
  show ?thesis by (intro conjI a b c d)
qed

text \<open>
  C9. An envelope that the codec cannot decode is nacked at once, whatever the
  \<open>select\<close>s would take: its only effect is the nack, so it is never acked and nothing
  is put on the output channel. The loop goes on: the envelopes before and after it are
  handled as they are without it, and what the streaming receive returns is not changed.
\<close>

theorem C9_decode_failure_nacks_and_continues:
  assumes "Unmarshaler (config s) (d_envelope d) = Inl err"
  shows "receive_callback s (d_envelope d) first second = [Nack (d_envelope d)]
       \<and> receive s sub (ds @ d # ds') terminal =
           (deliver_all s ds @ [Nack (d_envelope d)] @ deliver_all s ds', terminal)"
  using assms
  by (simp add: receive_def deliver_all_append receive_callback_def)

theorem C9_decode_failure_nacks_and_continues_witness:
  "receive_callback (NewSubscriber ex_config) (ex_envelope ''1'' []) Offer_sent Msg_acked
     = [Nack (ex_envelope ''1'' [])]
   \<and> receive (NewSubscriber ex_config)
       (client_Subscription \<lparr>c_id = 0, c_project = ''p''\<rparr> ''t'')
       ([] @ ex_delivery ''1'' [] Offer_sent Msg_acked #
          [ex_delivery ''2'' ''hello'' Offer_sent Msg_acked]) None
     = ([Nack (ex_envelope ''1'' []),
         Output \<lparr>UUID = ''2'', Payload = ''hello''\<rparr>, Ack (ex_envelope ''2'' ''hello'')],
        None)"
proof -
  let ?s = "NewSubscriber ex_config"
  let ?d = "ex_delivery ''1'' [] Offer_sent Msg_acked"
  have 1: "Unmarshaler (config ?s) (d_envelope ?d) = Inl (Other ''empty payload'')"
    by (simp add: NewSubscriber_def setDefaults_def ex_config_def ex_delivery_def
        ex_envelope_def ex_Unmarshaler_def)
  show ?thesis
    using C9_decode_failure_nacks_and_continues [OF 1, of Offer_sent Msg_acked
        "client_Subscription \<lparr>c_id = 0, c_project = ''p''\<rparr> ''t''" "[]"
        "[ex_delivery ''2'' ''hello'' Offer_sent Msg_acked]" None]
    by (simp add: ex_delivery_def receive_callback_def NewSubscriber_def setDefaults_def
        ex_config_def ex_envelope_def ex_Unmarshaler_def)
qed

subsection \<open>The retry supervisor\<close>

lemma Retry_stops:
  assumes "\<forall>j<n. \<exists>e. op (k + j) = Retry_err e"
    and "op (k + n) = Retry_nil \<or> (\<exists>e. op (k + n) = Retry_permanent e)"
    and "MaxElapsedTime b = 0" and "n < fuel"
  shows "Retry fuel op b elapsed k =
     Some (case op (k + n) of Retry_nil \<Rightarrow> None | Retry_permanent e \<Rightarrow> Some e
           | Retry_err e \<Rightarrow> Some e, Suc (k + n))"
  using assms
proof (induction n arbitrary: k fuel)
  case 0
  then obtain f where "fuel = Suc f" by (cases fuel) auto
  with 0 show ?case by (auto split: retry.splits)
next
  case (Suc n)
  then obtain f where f: "fuel = Suc f" "n < f" by (cases fuel) auto
  from Suc.prems(1) have "\<exists>e. op (k + 0) = Retry_err e" by blast
  then obtain e where e: "op k = Retry_err e" by auto
  have a: "\<forall>j<n. \<exists>e. op (Suc k + j) = Retry_err e"
    using Suc.prems(1) by (metis Suc_less_eq add_Suc_shift)
  have "Retry f op b elapsed (Suc k) =
      Some (case op (Suc k + n) of Retry_nil \<Rightarrow> None | Retry_permanent e \<Rightarrow> Some e
            | Retry_err e \<Rightarrow> Some e, Suc (Suc k + n))"
    using Suc.IH [OF a _ Suc.prems(3) f(2)] Suc.prems(2) by simp
  then show ?case using e f Suc.prems(3) by (simp add: NextBackOff_Stop_def)
qed

lemma Retry_forever:
  assumes "\<forall>j. \<exists>e. op (k + j) = Retry_err e" and "MaxElapsedTime b = 0"
  shows "Retry fuel op b elapsed k = None"
  using assms
proof (induction fuel arbitrary: k)
  case 0
  then show ?case by simp
next
  case (Suc fuel)
  from Suc.prems(1) have "\<exists>e. op (k + 0) = Retry_err e" by blast
  then obtain e where e: "op k = Retry_err e" by auto
  have a: "\<forall>j. \<exists>e. op (Suc k + j) = Retry_err e"
    using Suc.prems(1) by (metis add_Suc_shift)
  show ?case using Suc.IH [OF a Suc.prems(2)] e Suc.prems(2) by (simp add: NextBackOff_Stop_def)
qed

text \<open>
  C8. The supervisor runs the delivery loop on the same handle \<open>sub\<close> again and again.
  Let attempt \<open>n\<close> be the first that ends with the nil error or, with an error, while the
  subscriber is closed; every attempt before it ended with an error while the subscriber
  was open. Then, given fuel for more than \<open>n\<close> attempts, the supervisor stops after
  attempt \<open>n\<close>, having made \<open>n + 1\<close> attempts, and reports what that attempt
  returned: success for nil, otherwise that very error. When every attempt ends with an
  error while the subscriber is open, the supervisor never stops, whatever time has
  elapsed: no amount of fuel makes it return.
\<close>

theorem C8_retry_policy:
  "((\<forall>j<n. recv sub j \<noteq> None \<and> \<not> closedAt j) \<and> (recv sub n = None \<or> closedAt n) \<and> n < fuel
      \<longrightarrow> supervise fuel sub recv closedAt elapsed = Some (recv sub n, Suc n))
   \<and> ((\<forall>j. recv sub j \<noteq> None \<and> \<not> closedAt j)
      \<longrightarrow> supervise fuel sub recv closedAt elapsed = None)"
proof (intro conjI impI)
  let ?op = "\<lambda>k. operation (recv sub k) (closedAt k)"
  let ?b = "NewExponentialBackOff\<lparr>MaxElapsedTime := 0\<rparr>"
  assume h: "(\<forall>j<n. recv sub j \<noteq> None \<and> \<not> closedAt j) \<and> (recv sub n = None \<or> closedAt n)
               \<and> n < fuel"
  have 1: "\<forall>j<n. \<exists>e. ?op (0 + j) = Retry_err e"
    using h by (auto simp: operation_def split: option.splits)
  have 2: "?op (0 + n) = Retry_nil \<or> (\<exists>e. ?op (0 + n) = Retry_permanent e)"
    using h by (auto simp: operation_def split: option.splits)
  have 3: "(case ?op (0 + n) of Retry_nil \<Rightarrow> None | Retry_permanent e \<Rightarrow> Some e
            | Retry_err e \<Rightarrow> Some e) = recv sub n"
    by (auto simp: operation_def split: option.splits)
  from Retry_stops [of n ?op 0 ?b fuel elapsed, OF 1 2] h 3
  show "supervise fuel sub recv closedAt elapsed = Some (recv sub n, Suc n)"
    by (simp add: supervise_def)
next
  let ?op = "\<lambda>k. operation (recv sub k) (closedAt k)"
  let ?b = "NewExponentialBackOff\<lparr>MaxElapsedTime := 0\<rparr>"
  assume h: "\<forall>j. recv sub j \<noteq> None \<and> \<not> closedAt j"
  have 1: "\<forall>j. \<exists>e. ?op (0 + j) = Retry_err e"
    using h by (auto simp: operation_def split: option.splits)
  from Retry_forever [of ?op 0 ?b fuel elapsed, OF 1]
  show "supervise fuel sub recv closedAt elapsed = None"
    by (simp add: supervise_def)
qed

theorem C8_retry_policy_witness:
  "supervise 5 (client_Subscription \<lparr>c_id = 0, c_project = ''p''\<rparr> ''t'')
     (\<lambda>sub k. if k < 2 then Some (Remote Unavailable) else None) (\<lambda>k. False) (\<lambda>k. 1000 * k)
     = Some (None, 3)
   \<and> supervise 5 (client_Subscription \<lparr>c_id = 0, c_project = ''p''\<rparr> ''t'')
     (\<lambda>sub k. Some (Remote Unavailable)) (\<lambda>k. 1 \<le> k) (\<lambda>k. 1000 * k)
     = Some (Some (Remote Unavailable), 2)
   \<and> supervise 5 (client_Subscription \<lparr>c_id = 0, c_project = ''p''\<rparr> ''t'')
     (\<lambda>sub k. Some (Remote Unavailable)) (\<lambda>k. False) (\<lambda>k. 1000 * k)
     = None"
proof -
  let ?sub = "client_Subscription \<lparr>c_id = 0, c_project = ''p''\<rparr> ''t''"
  have a: "supervise 5 ?sub (\<lambda>sub k. if k < 2 then Some (Remote Unavailable) else None)
             (\<lambda>k. False) (\<lambda>k. 1000 * k) = Some (None, 3)"
    using C8_retry_policy [where n = 2 and fuel = 5 and sub = ?sub
        and recv = "\<lambda>sub k. if k < 2 then Some (Remote Unavailable) else None"
        and closedAt = "\<lambda>k. False" and elapsed = "\<lambda>k. 1000 * k"]
    by (simp add: numeral_3_eq_3)
  have b: "supervise 5 ?sub (\<lambda>sub k. Some (Remote Unavailable)) (\<lambda>k. 1 \<le> k) (\<lambda>k. 1000 * k)
             = Some (Some (Remote Unavailable), 2)"
    using C8_retry_policy [where n = 1 and fuel = 5 and sub = ?sub
        and recv = "\<lambda>sub k. Some (Remote Unavailable)"
        and closedAt = "\<lambda>k. 1 \<le> k" and elapsed = "\<lambda>k. 1000 * k"]
    by (simp add: numeral_2_eq_2)
  have c: "supervise 5 ?sub (\<lambda>sub k. Some (Remote Unavailable)) (\<lambda>k. False) (\<lambda>k. 1000 * k)
             = None"
    using C8_retry_policy [where fuel = 5 and sub = ?sub
        and recv = "\<lambda>sub k. Some (Remote Unavailable)"
        and closedAt = "\<lambda>k. False" and elapsed = "\<lambda>k. 1000 * k"]
    by simp
  show ?thesis using a b c by simp
qed

subsection \<open>Resolution\<close>








text \<open>
  C3, as the code has it. The name is not in the subscriber's cache, the subscription
  exists and the topic it is bound to, as the remote service reports it, is not the fully
  qualified name of the expected topic. Then, whatever the other fields of its
  configuration are, resolution fails with an error whose cause is
  \<open>ErrUnexpectedTopic\<close>, and the only calls made are the opening of the client, the
  existence check and the fetch of the configuration: nothing is deleted, updated or
  created.
\<close>

theorem C3_topic_mismatch_is_an_error:
  assumes "subscription_cached s subscriptionName = None"
    and "r_NewClient r = None"
    and "r_SubExists r = Inr True"
    and "r_SubConfig r = Inr cfg"
    and "Topic cfg \<noteq> ''projects/'' @ topicProjectID (config s) @ ''/topics/'' @ topicName"
  shows "\<exists>e. subscription s r subscriptionName topicName =
             (Inl e, s\<lparr>clients := clients s @ [pubsub_NewClient s]\<rparr>,
              [NewClient (ProjectID (config s)),
               SubExists (pubsub_NewClient s) subscriptionName,
               SubConfig (pubsub_NewClient s) subscriptionName])
           \<and> Cause e = ErrUnexpectedTopic
           \<and> mutations (snd (snd (subscription s r subscriptionName topicName))) = []"
  using assms
  by (simp add: subscription_def subscription_locked_def newClient_def subscription_body_def
      existingSubscription_def Let_def)

theorem C3_topic_mismatch_is_an_error_witness:
  "\<exists>e. subscription (NewSubscriber ex_config) (ex_existing ''projects/p/topics/A'' ''a = b'')
          ''sub'' ''B'' =
         (Inl e,
          (NewSubscriber ex_config)
            \<lparr>clients := clients (NewSubscriber ex_config) @ [pubsub_NewClient (NewSubscriber ex_config)]\<rparr>,
          [NewClient (ProjectID (config (NewSubscriber ex_config))),
           SubExists (pubsub_NewClient (NewSubscriber ex_config)) ''sub'',
           SubConfig (pubsub_NewClient (NewSubscriber ex_config)) ''sub''])
       \<and> Cause e = ErrUnexpectedTopic
       \<and> mutations (snd (snd (subscription (NewSubscriber ex_config)
                                 (ex_existing ''projects/p/topics/A'' ''a = b'') ''sub'' ''B''))) = []"
proof -
  let ?s = "NewSubscriber ex_config"
  let ?r = "ex_existing ''projects/p/topics/A'' ''a = b''"
  have 1: "subscription_cached ?s ''sub'' = None"
    by (simp add: subscription_cached_def NewSubscriber_def)
  have 2: "r_NewClient ?r = None" and 3: "r_SubExists ?r = Inr True"
    and 4: "r_SubConfig ?r = Inr (ex_SubscriptionConfig\<lparr>Topic := ''projects/p/topics/A'', Filter := ''a = b''\<rparr>)"
    by (simp_all add: ex_existing_def)
  have 5: "Topic (ex_SubscriptionConfig\<lparr>Topic := ''projects/p/topics/A'', Filter := ''a = b''\<rparr>)
             \<noteq> ''projects/'' @ topicProjectID (config ?s) @ ''/topics/'' @ ''B''"
    by (simp add: NewSubscriber_def setDefaults_def ex_config_def topicProjectID_def)
  show ?thesis
    using C3_topic_mismatch_is_an_error [OF 1 2 3 4 5] .
qed

text \<open>
  The claim C3 as it is stated fails when the name is cached: the cache is keyed by the
  subscription name alone and is read before the topic is looked at. On a subscriber
  whose naming function gives the topics \<open>A\<close> and \<open>B\<close> one name, after a stream for
  \<open>A\<close> has been started (which creates the subscription, bound to
  \<open>projects/p/topics/A\<close>), \<open>Subscribe\<close> for \<open>B\<close> succeeds with the handle cached for
  \<open>A\<close> and makes no remote call, though the subscription exists and is bound to another
  topic than \<open>projects/p/topics/B\<close>.
\<close>

theorem C3_cached_name_counterexample:
  "fst (Subscribe (NewSubscriber (ex_config\<lparr>GenerateSubscriptionName := ex_sameName\<rparr>))
          ex_fresh ''A'')
     = Inr \<lparr>sub_client = \<lparr>c_id = 0, c_project = ''p''\<rparr>, sub_name = ''sub'',
            sub_ReceiveSettings = zero_ReceiveSettings\<lparr>NumGoroutines := 4\<rparr>\<rparr>
   \<and> snd (snd (Subscribe (NewSubscriber (ex_config\<lparr>GenerateSubscriptionName := ex_sameName\<rparr>))
                  ex_fresh ''A''))
     = [NewClient ''p'', SubExists \<lparr>c_id = 0, c_project = ''p''\<rparr> ''sub'',
        TopicExists ''projects/p/topics/A'',
        CreateTopic \<lparr>c_id = 0, c_project = ''p''\<rparr> ''A'',
        CreateSubscription \<lparr>c_id = 0, c_project = ''p''\<rparr> ''sub''
          (ex_SubscriptionConfig\<lparr>Topic := ''projects/p/topics/A''\<rparr>)]
   \<and> r_SubExists (ex_existing ''projects/p/topics/A'' ''a = b'') = Inr True
   \<and> r_SubConfig (ex_existing ''projects/p/topics/A'' ''a = b'')
     = Inr (ex_SubscriptionConfig\<lparr>Topic := ''projects/p/topics/A'', Filter := ''a = b''\<rparr>)
   \<and> ''projects/p/topics/A'' \<noteq> ''projects/p/topics/B''
   \<and> fst (Subscribe
          (fst (snd (Subscribe
             (NewSubscriber (ex_config\<lparr>GenerateSubscriptionName := ex_sameName\<rparr>))
             ex_fresh ''A'')))
          (ex_existing ''projects/p/topics/A'' ''a = b'') ''B'')
     = Inr \<lparr>sub_client = \<lparr>c_id = 0, c_project = ''p''\<rparr>, sub_name = ''sub'',
            sub_ReceiveSettings = zero_ReceiveSettings\<lparr>NumGoroutines := 4\<rparr>\<rparr>
   \<and> snd (snd (Subscribe
          (fst (snd (Subscribe
             (NewSubscriber (ex_config\<lparr>GenerateSubscriptionName := ex_sameName\<rparr>))
             ex_fresh ''A'')))
          (ex_existing ''projects/p/topics/A'' ''a = b'') ''B''))
     = []"
  by (simp add: Subscribe_def getClosed_def subscription_def subscription_cached_def
      subscription_locked_def newClient_def subscription_body_def createSubscription_def
      NewSubscriber_def setDefaults_def ex_config_def ex_fresh_def ex_existing_def
      ex_sameName_def pubsub_NewClient_def client_Subscription_def client_Topic_def Let_def)



subsection \<open>The cache and the clients\<close>

lemma released_append: "released (tr @ tr') = released tr @ released tr'"
  by (induction tr rule: released.induct) simp_all

lemma released_createSubscription: "released (snd (createSubscription s r c t n)) = []"
  by (simp add: createSubscription_def Let_def released_append split: sum.split option.split)

lemma released_existingSubscription: "released (snd (existingSubscription s r c sub t n)) = []"
  using released_createSubscription [of s r c t n]
  by (auto simp: existingSubscription_def Let_def split: sum.split option.split prod.split)

lemma released_subscription_body: "released (snd (subscription_body s r c n t)) = []"
  using released_createSubscription [of s r c t n]
    released_existingSubscription [of s r c "client_Subscription c n" t n]
  by (auto simp: subscription_body_def Let_def split: sum.split prod.split)

lemma released_subscription_locked: "released (snd (snd (subscription_locked s r n t))) = []"
proof (cases "r_NewClient r")
  case None
  show ?thesis
    using None released_subscription_body
      [of "s\<lparr>clients := clients s @ [pubsub_NewClient s]\<rparr>" r "pubsub_NewClient s" n t]
    by (auto simp: subscription_locked_def newClient_def Let_def released_append
        split: sum.split prod.split)
next
  case (Some e)
  then show ?thesis by (simp add: subscription_locked_def newClient_def)
qed

lemma released_subscription: "released (snd (snd (subscription s r n t))) = []"
  using released_subscription_locked [of s r n t]
  by (simp add: subscription_def split: option.split)

lemma released_map_ClientClose: "released (map ClientClose cs) = cs"
  by (induction cs) simp_all

lemma released_Close: "\<not> getClosed s \<Longrightarrow> released (snd (snd (Close s ce))) = clients s"
  by (simp add: Close_def Let_def setClosed_def released_map_ClientClose)

lemma subscription_locked_trace:
  "\<exists>tr. snd (snd (subscription_locked s r n t)) = NewClient (ProjectID (config s)) # tr"
  by (simp add: subscription_locked_def newClient_def Let_def
      split: option.split sum.split prod.split)

lemma subscription_Inl:
  assumes "subscription s r n t = (Inl e, s', tr)"
  shows "subscription_cached s n = None" "subscription_locked s r n t = (Inl e, s', tr)"
  using assms by (auto simp: subscription_def split: option.splits)

lemma subscription_locked_Inl:
  assumes "subscription_locked s r n t = (Inl e, s', tr)" "r_NewClient r = None"
  shows "s' = s\<lparr>clients := clients s @ [pubsub_NewClient s]\<rparr>"
  using assms
  by (auto simp: subscription_locked_def newClient_def Let_def split: sum.splits prod.splits)

text \<open>
  C10. A resolution that fails after its client has been opened leaves the cache as it
  was, so the name is still not cached and a later resolution of the same name runs the
  section under the exclusive lock again, starting with a new client. The client of the
  failed resolution has been appended to \<open>clients\<close>; the resolution itself closes no
  client, and \<open>Close\<close>, on a subscriber that is not yet closed, closes the clients of
  the list, this one among them.
\<close>

theorem C10_failed_resolution_keeps_client:
  assumes fail: "subscription s r n t = (Inl e, s', tr)" and nc: "r_NewClient r = None"
  shows "activeSubscriptions s' = activeSubscriptions s
       \<and> subscription_cached s' n = None
       \<and> clients s' = clients s @ [pubsub_NewClient s]
       \<and> released tr = []
       \<and> subscription s' r' n t = subscription_locked s' r' n t
       \<and> (\<exists>tr'. snd (snd (subscription s' r' n t)) = NewClient (ProjectID (config s)) # tr')
       \<and> (\<not> getClosed s' \<longrightarrow>
            released (snd (snd (Close s' closeErr))) = clients s @ [pubsub_NewClient s])"
proof -
  have miss: "subscription_cached s n = None"
    and locked: "subscription_locked s r n t = (Inl e, s', tr)"
    using subscription_Inl [OF fail] by simp_all
  have s': "s' = s\<lparr>clients := clients s @ [pubsub_NewClient s]\<rparr>"
    using subscription_locked_Inl [OF locked nc] .
  have rel: "released tr = []"
    using released_subscription [of s r n t] fail by simp
  have miss': "subscription_cached s' n = None"
    using miss s' by (simp add: subscription_cached_def)
  have again: "subscription s' r' n t = subscription_locked s' r' n t"
    using miss' by (simp add: subscription_def)
  have tr': "\<exists>tr'. snd (snd (subscription s' r' n t)) = NewClient (ProjectID (config s)) # tr'"
    using subscription_locked_trace [of s' r' n t] again s' by simp
  have cl: "\<not> getClosed s' \<longrightarrow>
      released (snd (snd (Close s' closeErr))) = clients s @ [pubsub_NewClient s]"
    using released_Close [of s' closeErr] s' by simp
  show ?thesis using s' rel miss' again tr' cl by simp
qed

theorem C10_failed_resolution_keeps_client_witness:
  "activeSubscriptions
      ((NewSubscriber (ex_config\<lparr>DoNotCreateSubscriptionIfMissing := True\<rparr>))
         \<lparr>clients := [\<lparr>c_id = 0, c_project = ''p''\<rparr>]\<rparr>) ''t'' = None
   \<and> clients ((NewSubscriber (ex_config\<lparr>DoNotCreateSubscriptionIfMissing := True\<rparr>))
         \<lparr>clients := [\<lparr>c_id = 0, c_project = ''p''\<rparr>]\<rparr>) = [\<lparr>c_id = 0, c_project = ''p''\<rparr>]
   \<and> released [NewClient ''p'', SubExists \<lparr>c_id = 0, c_project = ''p''\<rparr> ''t''] = []
   \<and> released (snd (snd (Close
        ((NewSubscriber (ex_config\<lparr>DoNotCreateSubscriptionIfMissing := True\<rparr>))
           \<lparr>clients := [\<lparr>c_id = 0, c_project = ''p''\<rparr>]\<rparr>) ex_closeErr)))
       = [\<lparr>c_id = 0, c_project = ''p''\<rparr>]"
proof -
  let ?s = "NewSubscriber (ex_config\<lparr>DoNotCreateSubscriptionIfMissing := True\<rparr>)"
  let ?c = "\<lparr>c_id = 0, c_project = ''p''\<rparr>"
  have run: "subscription ?s ex_fresh ''t'' ''t''
     = (Inl (Wrap ErrSubscriptionDoesNotExist ''t''), ?s\<lparr>clients := [?c]\<rparr>,
        [NewClient ''p'', SubExists ?c ''t''])"
    by (simp add: subscription_def subscription_cached_def subscription_locked_def
        newClient_def subscription_body_def NewSubscriber_def setDefaults_def ex_config_def
        ex_fresh_def pubsub_NewClient_def Let_def)
  have nc: "r_NewClient ex_fresh = None" by (simp add: ex_fresh_def)
  have not_closed: "\<not> getClosed (?s\<lparr>clients := [?c]\<rparr>)"
    by (simp add: getClosed_def NewSubscriber_def)
  show ?thesis
    using C10_failed_resolution_keeps_client [OF run nc, of ex_fresh ex_closeErr] not_closed
    by (simp add: subscription_cached_def NewSubscriber_def pubsub_NewClient_def
        setDefaults_def ex_config_def)
qed

subsection \<open>Shutdown and the entry points\<close>

text \<open>
  C5, as the code has it. On a subscriber whose closed flag is set, and so on every
  subscriber that \<open>Close\<close> has returned, \<open>Subscribe\<close> fails with
  \<open>ErrSubscriberClosed\<close>, makes no remote call and leaves the subscriber as it is: no
  client is opened and nothing is resolved.
\<close>

theorem C5_Subscribe_refuses_when_closed:
  "(getClosed s \<longrightarrow> Subscribe s r topic = (Inl ErrSubscriberClosed, s, []))
   \<and> Subscribe (fst (snd (Close s closeErr))) r topic =
       (Inl ErrSubscriberClosed, fst (snd (Close s closeErr)), [])"
  by (simp add: Subscribe_def Close_def getClosed_def setClosed_def Let_def)

theorem C5_Subscribe_refuses_when_closed_witness:
  "getClosed (fst (snd (Close (NewSubscriber ex_config) ex_closeErr)))
   \<and> Subscribe (fst (snd (Close (NewSubscriber ex_config) ex_closeErr))) ex_fresh ''t'' =
       (Inl ErrSubscriberClosed, fst (snd (Close (NewSubscriber ex_config) ex_closeErr)), [])"
proof -
  have 1: "getClosed (fst (snd (Close (NewSubscriber ex_config) ex_closeErr)))"
    by (simp add: Close_def getClosed_def setClosed_def NewSubscriber_def Let_def)
  show ?thesis
    using 1 C5_Subscribe_refuses_when_closed
      [of "fst (snd (Close (NewSubscriber ex_config) ex_closeErr))" ex_fresh "''t''"]
    by simp
qed

text \<open>
  The claim C5 as it is stated fails for \<open>SubscribeInitialize\<close>, which does not read
  the closed flag: on a closed subscriber it opens a client and resolves the subscription,
  here creating the topic and the subscription.
\<close>

theorem C5_SubscribeInitialize_counterexample:
  "getClosed (fst (snd (Close (NewSubscriber ex_config) ex_closeErr)))
   \<and> fst (SubscribeInitialize (fst (snd (Close (NewSubscriber ex_config) ex_closeErr)))
            ex_fresh ''t'') = None
   \<and> snd (snd (SubscribeInitialize (fst (snd (Close (NewSubscriber ex_config) ex_closeErr)))
                  ex_fresh ''t''))
       = [NewClient ''p'', SubExists \<lparr>c_id = 0, c_project = ''p''\<rparr> ''t'',
          TopicExists ''projects/p/topics/t'',
          CreateTopic \<lparr>c_id = 0, c_project = ''p''\<rparr> ''t'',
          CreateSubscription \<lparr>c_id = 0, c_project = ''p''\<rparr> ''t''
            (ex_SubscriptionConfig\<lparr>Topic := ''projects/p/topics/t''\<rparr>)]"
  by (simp add: SubscribeInitialize_def subscription_def subscription_cached_def
      subscription_locked_def newClient_def subscription_body_def createSubscription_def
      Close_def getClosed_def setClosed_def NewSubscriber_def setDefaults_def ex_config_def
      ex_fresh_def ex_closeErr_def pubsub_NewClient_def client_Topic_def
      TopicSubscriptionName_def Let_def)

subsection \<open>Callers of the resolver at the same time\<close>

lemma sequences_append: "sequences (tr @ tr') = sequences tr + sequences tr'"
  by (induction tr rule: sequences.induct) simp_all

lemma sequences_createSubscription: "sequences (snd (createSubscription s r c t n)) = 0"
  by (simp add: createSubscription_def Let_def sequences_append split: sum.split option.split)

lemma sequences_existingSubscription:
  "sequences (snd (existingSubscription s r c sub t n)) = 0"
  using sequences_createSubscription [of s r c t n]
  by (auto simp: existingSubscription_def Let_def split: sum.split option.split prod.split)

lemma sequences_subscription_body: "sequences (snd (subscription_body s r c n t)) = 0"
  using sequences_createSubscription [of s r c t n]
    sequences_existingSubscription [of s r c "client_Subscription c n" t n]
  by (auto simp: subscription_body_def Let_def split: sum.split prod.split)

lemma sequences_subscription_locked:
  "sequences (snd (snd (subscription_locked s r n t))) = 1"
proof (cases "r_NewClient r")
  case None
  show ?thesis
    using None sequences_subscription_body
      [of "s\<lparr>clients := clients s @ [pubsub_NewClient s]\<rparr>" r "pubsub_NewClient s" n t]
    by (auto simp: subscription_locked_def newClient_def Let_def sequences_append
        split: sum.split prod.split)
next
  case (Some e)
  then show ?thesis by (simp add: subscription_locked_def newClient_def)
qed

lemma subscription_locked_Inr:
  assumes "subscription_locked s r n t = (Inr h, s', tr)"
  shows "subscription_cached s' n = Some h"
  using assms
  by (auto simp: subscription_locked_def subscription_cached_def Let_def
      split: sum.splits prod.splits)

lemma step_cached:
  assumes "subscription_cached (w_sub w) n = Some h" "Missed \<notin> set (w_calls w)"
  shows "step rs n t w ev =
     (case ev of
        Check i \<Rightarrow> if i < length (w_calls w) \<and> w_calls w ! i = Idle
                   then w\<lparr>w_calls := (w_calls w)[i := Returned (Inr h)]\<rparr> else w
      | Resolve i \<Rightarrow> w)"
  using assms by (cases ev) (auto simp: in_set_conv_nth)

lemma run_cached:
  assumes "subscription_cached (w_sub w) n = Some h" "Missed \<notin> set (w_calls w)"
  shows "w_sub (run rs n t w es) = w_sub w \<and> w_log (run rs n t w es) = w_log w
       \<and> length (w_calls (run rs n t w es)) = length (w_calls w)
       \<and> (\<forall>i<length (w_calls w). w_calls (run rs n t w es) ! i =
            (if w_calls w ! i = Idle \<and> Check i \<in> set es then Returned (Inr h)
             else w_calls w ! i))"
  using assms
proof (induction es arbitrary: w)
  case Nil
  then show ?case by simp
next
  case (Cons ev es)
  let ?w = "step rs n t w ev"
  have st: "?w = (case ev of
        Check i \<Rightarrow> if i < length (w_calls w) \<and> w_calls w ! i = Idle
                   then w\<lparr>w_calls := (w_calls w)[i := Returned (Inr h)]\<rparr> else w
      | Resolve i \<Rightarrow> w)"
    using step_cached [OF Cons.prems] .
  have sub: "w_sub ?w = w_sub w" and log: "w_log ?w = w_log w"
    and len: "length (w_calls ?w) = length (w_calls w)"
    by (simp_all add: st split: event.split)
  have nm: "Missed \<notin> set (w_calls ?w)"
    using Cons.prems(2)
    by (auto simp: st split: event.split dest: set_update_subset_insert [THEN subsetD])
  have c: "subscription_cached (w_sub ?w) n = Some h"
    using Cons.prems(1) sub by simp
  note IH = Cons.IH [OF c nm]
  have calls: "\<forall>i<length (w_calls w). w_calls ?w ! i =
      (if w_calls w ! i = Idle \<and> ev = Check i then Returned (Inr h) else w_calls w ! i)"
    by (auto simp: st nth_list_update split: event.split)
  show ?case
    using IH sub log len calls by auto
qed

text \<open>
  C2, as the code has it. \<open>N\<close> callers resolve the same name, which is not cached. When
  the first caller has finished a successful resolution before the others make their
  check under the read lock, then, whatever the order of the others' events, one client
  is opened and one remote sequence is made in all (that of the first caller), every
  caller returns the same handle, that of the first, and the subscriber is as the first
  caller left it.
\<close>

theorem C2_resolved_once_then_cached:
  assumes miss: "subscription_cached s n = None"
    and first: "subscription_locked s (rs 0) n t = (Inr h, s', tr)"
    and N: "0 < N"
    and others: "\<forall>i<N. 0 < i \<longrightarrow> Check i \<in> set es"
  shows "run rs n t \<lparr>w_sub = s, w_calls = replicate N Idle, w_log = []\<rparr>
           (Check 0 # Resolve 0 # es)
         = \<lparr>w_sub = s', w_calls = replicate N (Returned (Inr h)), w_log = tr\<rparr>
       \<and> sequences tr = 1"
proof -
  let ?w0 = "\<lparr>w_sub = s, w_calls = replicate N Idle, w_log = []\<rparr>"
  let ?w1 = "\<lparr>w_sub = s', w_calls = (replicate N Idle)[0 := Returned (Inr h)], w_log = tr\<rparr>"
  have start: "run rs n t ?w0 (Check 0 # Resolve 0 # es) = run rs n t ?w1 es"
    using miss first N by simp
  have cached: "subscription_cached (w_sub ?w1) n = Some h"
    using subscription_locked_Inr [OF first] by simp
  have nm: "Missed \<notin> set (w_calls ?w1)"
    by (auto dest: set_update_subset_insert [THEN subsetD])
  note inv = run_cached [OF cached nm, of rs t es]
  let ?w = "run rs n t ?w1 es"
  have len: "length (w_calls ?w) = N" using inv by simp
  have "w_calls ?w ! i = Returned (Inr h)" if "i < N" for i
  proof (cases i)
    case 0
    then show ?thesis using inv that by simp
  next
    case (Suc j)
    then have "Check i \<in> set es" using others that by simp
    then show ?thesis using inv that Suc by simp
  qed
  then have calls: "w_calls ?w = replicate N (Returned (Inr h))"
    using len by (intro nth_equalityI) simp_all
  have "?w = \<lparr>w_sub = s', w_calls = replicate N (Returned (Inr h)), w_log = tr\<rparr>"
    using inv calls by (cases ?w) simp
  moreover have "sequences tr = 1"
    using sequences_subscription_locked [of s "rs 0" n t] first by simp
  ultimately show ?thesis using start by simp
qed

theorem C2_resolved_once_then_cached_witness:
  "run ex_answers ''t'' ''t''
       \<lparr>w_sub = NewSubscriber ex_config, w_calls = replicate 2 Idle, w_log = []\<rparr>
       (Check 0 # Resolve 0 # [Check 1, Resolve 1])
     = \<lparr>w_sub = fst (snd (subscription_locked (NewSubscriber ex_config) (ex_answers 0) ''t'' ''t'')),
        w_calls = replicate 2
          (Returned (Inr \<lparr>sub_client = \<lparr>c_id = 0, c_project = ''p''\<rparr>, sub_name = ''t'',
                          sub_ReceiveSettings = zero_ReceiveSettings\<lparr>NumGoroutines := 4\<rparr>\<rparr>)),
        w_log = snd (snd (subscription_locked (NewSubscriber ex_config) (ex_answers 0) ''t'' ''t''))\<rparr>
   \<and> sequences (snd (snd (subscription_locked (NewSubscriber ex_config) (ex_answers 0) ''t'' ''t''))) = 1"
proof -
  let ?s = "NewSubscriber ex_config"
  let ?h = "\<lparr>sub_client = \<lparr>c_id = 0, c_project = ''p''\<rparr>, sub_name = ''t'',
             sub_ReceiveSettings = zero_ReceiveSettings\<lparr>NumGoroutines := 4\<rparr>\<rparr>"
  have miss: "subscription_cached ?s ''t'' = None"
    by (simp add: subscription_cached_def NewSubscriber_def)
  have "fst (subscription_locked ?s (ex_answers 0) ''t'' ''t'') = Inr ?h"
    by (simp add: subscription_locked_def newClient_def subscription_body_def
        createSubscription_def NewSubscriber_def setDefaults_def ex_config_def ex_answers_def
        ex_fresh_def pubsub_NewClient_def client_Subscription_def Let_def)
  then have first: "subscription_locked ?s (ex_answers 0) ''t'' ''t'' =
      (Inr ?h, fst (snd (subscription_locked ?s (ex_answers 0) ''t'' ''t'')),
       snd (snd (subscription_locked ?s (ex_answers 0) ''t'' ''t'')))"
    by (simp add: prod_eq_iff)
  have N: "(0::nat) < 2" by simp
  have others: "\<forall>i<2. 0 < i \<longrightarrow> Check i \<in> set [Check 1, Resolve 1]"
    by (auto simp: less_Suc_eq numeral_2_eq_2)
  show ?thesis
    using C2_resolved_once_then_cached [where rs = ex_answers, OF miss first N others] .
qed

text \<open>
  The claim C2 as it is stated fails: the section under the exclusive lock does not look
  at the cache again. Two callers that both make their check before either resolves
  each open a client and make a remote sequence, and they return different handles, one
  for each client.
\<close>

theorem C2_concurrent_callers_counterexample:
  "w_calls (run ex_answers ''t'' ''t''
              \<lparr>w_sub = NewSubscriber ex_config, w_calls = [Idle, Idle], w_log = []\<rparr>
              [Check 0, Check 1, Resolve 0, Resolve 1])
     = [Returned (Inr \<lparr>sub_client = \<lparr>c_id = 0, c_project = ''p''\<rparr>, sub_name = ''t'',
                       sub_ReceiveSettings = zero_ReceiveSettings\<lparr>NumGoroutines := 4\<rparr>\<rparr>),
        Returned (Inr \<lparr>sub_client = \<lparr>c_id = 1, c_project = ''p''\<rparr>, sub_name = ''t'',
                       sub_ReceiveSettings = zero_ReceiveSettings\<lparr>NumGoroutines := 4\<rparr>\<rparr>)]
   \<and> sequences (w_log (run ex_answers ''t'' ''t''
              \<lparr>w_sub = NewSubscriber ex_config, w_calls = [Idle, Idle], w_log = []\<rparr>
              [Check 0, Check 1, Resolve 0, Resolve 1])) = 2"
  by (simp add: subscription_cached_def subscription_locked_def newClient_def
      subscription_body_def existingSubscription_def createSubscription_def
      isFilterChanged_def isPushEndpointChanged_def topicProjectID_def
      NewSubscriber_def setDefaults_def ex_config_def ex_answers_def ex_fresh_def
      ex_existing_def ex_SubscriptionConfig_def pubsub_NewClient_def client_Subscription_def
      client_Topic_def ReplaceAll_space_def Let_def)

subsection \<open>Recreation after a change of the filter\<close>

lemma createSubscription_handle:
  "fst (createSubscription s r c t n) = Inr sub \<Longrightarrow> sub = client_Subscription c n"
  by (auto simp: createSubscription_def Let_def split: sum.splits option.splits if_splits)

lemma createSubscription_topic:
  "CreateSubscription c' n' cfg \<in> set (snd (createSubscription s r c t n)) \<Longrightarrow>
     Topic cfg = client_Topic c t"
  by (auto simp: createSubscription_def Let_def split: sum.splits option.splits if_splits)

lemma existingSubscription_recreate:
  assumes "r_SubConfig r = Inr cfg"
    and "Topic cfg = ''projects/'' @ topicProjectID (config s) @ ''/topics/'' @ t"
    and "isFilterChanged s cfg" and "RecreateSubscriptionIfFilterChanged (config s)"
    and "r_SubDelete r = None"
  shows "existingSubscription s r c sub t n =
           (fst (createSubscription s r c t n),
            [SubConfig c n, SubDelete c n] @ snd (createSubscription s r c t n))"
  using assms by (simp add: existingSubscription_def Let_def split: prod.split)

lemma existingSubscription_keeps_filter:
  assumes "\<not> RecreateSubscriptionIfFilterChanged (config s)"
  shows "mutations (snd (existingSubscription s r c sub t n)) =
           (if (\<exists>cfg. r_SubConfig r = Inr cfg
                  \<and> Topic cfg = ''projects/'' @ topicProjectID (config s) @ ''/topics/'' @ t
                  \<and> isPushEndpointChanged s cfg)
               \<and> \<not> DoNotUpdateSubscriptionIfEndpointChanged (config s)
            then [SubUpdate c n (PushConfig (SubscriptionConfig (config s)))] else [])"
  using assms by (auto simp: existingSubscription_def Let_def split: sum.splits)

lemma ReplaceAll_space_whitespace:
  assumes "CHR '' '' \<in> W"
    and "filter (\<lambda>c. c \<notin> W) (Filter cfg)
           \<noteq> filter (\<lambda>c. c \<notin> W) (Filter (SubscriptionConfig (config s)))"
  shows "isFilterChanged s cfg"
proof -
  have "filter (\<lambda>c. c \<notin> W) (ReplaceAll_space f) = filter (\<lambda>c. c \<notin> W) f" for f
    using assms(1) by (auto simp: ReplaceAll_space_def intro: filter_cong)
  then show ?thesis
    using assms(2) by (metis isFilterChanged_def)
qed

text \<open>
  C4 at an input where the code departs from it. The subscriber has receive settings of
  its own (four goroutines) and recreates subscriptions whose filter has changed; the
  subscription exists for the expected topic with another filter. The resolution
  succeeds, and the handle it returns and caches has the zero receive settings, not the
  subscriber's: the settings were put on the handle of the deleted subscription, and the
  handle that \<open>createSubscription\<close> returns is passed on as it is.
\<close>

theorem C4_recreated_handle_has_zero_settings:
  "fst (subscription (NewSubscriber (ex_config\<lparr>RecreateSubscriptionIfFilterChanged := True\<rparr>))
          (ex_existing ''projects/p/topics/t'' ''x = y'') ''t'' ''t'')
     = Inr \<lparr>sub_client = \<lparr>c_id = 0, c_project = ''p''\<rparr>, sub_name = ''t'',
            sub_ReceiveSettings = zero_ReceiveSettings\<rparr>
   \<and> activeSubscriptions
       (fst (snd (subscription
          (NewSubscriber (ex_config\<lparr>RecreateSubscriptionIfFilterChanged := True\<rparr>))
          (ex_existing ''projects/p/topics/t'' ''x = y'') ''t'' ''t''))) ''t''
     = Some \<lparr>sub_client = \<lparr>c_id = 0, c_project = ''p''\<rparr>, sub_name = ''t'',
             sub_ReceiveSettings = zero_ReceiveSettings\<rparr>
   \<and> ReceiveSettings (config (NewSubscriber
         (ex_config\<lparr>RecreateSubscriptionIfFilterChanged := True\<rparr>)))
     = zero_ReceiveSettings\<lparr>NumGoroutines := 4\<rparr>
   \<and> zero_ReceiveSettings\<lparr>NumGoroutines := 4\<rparr> \<noteq> zero_ReceiveSettings"
  by (simp add: subscription_def subscription_cached_def subscription_locked_def
      newClient_def subscription_body_def existingSubscription_def createSubscription_def
      isFilterChanged_def topicProjectID_def NewSubscriber_def setDefaults_def ex_config_def
      ex_existing_def ex_SubscriptionConfig_def pubsub_NewClient_def client_Subscription_def
      client_Topic_def ReplaceAll_space_def zero_ReceiveSettings_def Let_def)

text \<open>
  C6 at an input where the code departs from it. The subscriber works in project \<open>p\<close>
  on a topic of project \<open>q\<close> (\<open>TopicProjectID\<close>) and recreates subscriptions whose
  filter has changed; the subscription exists, bound to the expected topic
  \<open>projects/q/topics/t\<close>, with another filter. The resolution deletes it and creates it
  again, but for \<open>projects/p/topics/t\<close>: \<open>createSubscription\<close> takes the topic from
  the client, which names it in the client's project, while the check of the bound topic
  uses \<open>topicProjectID\<close>.
\<close>

theorem C6_recreated_for_topic_of_other_project:
  "r_SubConfig (ex_existing ''projects/q/topics/t'' ''x = y'')
     = Inr (ex_SubscriptionConfig\<lparr>Topic := ''projects/q/topics/t'', Filter := ''x = y''\<rparr>)
   \<and> snd (snd (subscription
        (NewSubscriber (ex_config\<lparr>RecreateSubscriptionIfFilterChanged := True,
                                  TopicProjectID := ''q''\<rparr>))
        (ex_existing ''projects/q/topics/t'' ''x = y'') ''t'' ''t''))
     = [NewClient ''p'', SubExists \<lparr>c_id = 0, c_project = ''p''\<rparr> ''t'',
        SubConfig \<lparr>c_id = 0, c_project = ''p''\<rparr> ''t'',
        SubDelete \<lparr>c_id = 0, c_project = ''p''\<rparr> ''t'',
        TopicExists ''projects/p/topics/t'',
        CreateSubscription \<lparr>c_id = 0, c_project = ''p''\<rparr> ''t''
          (ex_SubscriptionConfig\<lparr>Topic := ''projects/p/topics/t''\<rparr>)]
   \<and> ''projects/p/topics/t'' \<noteq> ''projects/q/topics/t''"
  by (simp add: subscription_def subscription_cached_def subscription_locked_def
      newClient_def subscription_body_def existingSubscription_def createSubscription_def
      isFilterChanged_def topicProjectID_def NewSubscriber_def setDefaults_def ex_config_def
      ex_existing_def ex_SubscriptionConfig_def pubsub_NewClient_def client_Subscription_def
      client_Topic_def ReplaceAll_space_def Let_def)

end
